theory Spec2Isabelle
  imports Main "HOL-Library.Word"
begin

section \<open>SQLitePlus: the SQLITE3 wrapper class of include/SQLITE3.hpp\<close>

text \<open>
  The class owns a connection pointer \<open>db\<close>, an error-message pointer \<open>err_msg\<close>, a
  result vector and a public error code \<open>error_no\<close>. Every member function is modelled
  as a function from the object's fields and the state of the SQLite library to a
  return status, the new fields and the new library state. The SQLite library itself
  is not part of the repository: it is a parameter of every definition.
\<close>

subsection \<open>The SQLite library as a parameter\<close>

type_synonym SQLITE_ROW_VECTOR = "string list"

text \<open>One row as the library hands it to a callback: \<open>argv\<close>, one entry per column,
  a null pointer for an SQL NULL.\<close>

type_synonym argv = "string option list"

text \<open>\<open>SQLITE_OK\<close> of sqlite3.h.\<close>

definition SQLITE_OK :: int where
  "SQLITE_OK = 0"

text \<open>
  What the library answers to one \<open>sqlite3_exec\<close> request: the rows the statements
  yield (in the order it yields them), the status, message and library state it ends
  with when no callback stops it, and what it ends with when the callback for row
  number \<open>k\<close> returns nonzero.
\<close>

record 'w exec_reply =
  reply_rows :: "argv list"
  reply_rc :: int
  reply_errmsg :: "string option"
  reply_world :: 'w
  reply_abort :: "nat \<Rightarrow> int \<times> string option \<times> 'w"

text \<open>
  The three entry points the class uses. A connection pointer is \<open>None\<close> (null) or
  \<open>Some h\<close>. \<open>engine_open\<close> returns the status and the pointer it stores through
  \<open>ppDb\<close>; \<open>engine_exec\<close> sees the pointer, the SQL text and the old content of the
  message pointer it may overwrite.
\<close>

record 'w engine =
  engine_open :: "string \<Rightarrow> 'w \<Rightarrow> int \<times> nat option \<times> 'w"
  engine_close :: "nat option \<Rightarrow> 'w \<Rightarrow> 'w"
  engine_exec :: "nat option \<Rightarrow> string \<Rightarrow> string option \<Rightarrow> 'w \<Rightarrow> 'w exec_reply"

text \<open>\<open>std::string::c_str()\<close> read as a C string: the characters before the first NUL.\<close>

definition c_str :: "string \<Rightarrow> string" where
  "c_str s = takeWhile (\<lambda>c. c \<noteq> CHR 0x00) s"

text \<open>
  The callback protocol of \<open>sqlite3_exec\<close>: the callback is invoked once per row, with the
  context, the column count and the values; a nonzero return stops the iteration at
  that row. The result is the index of the row that stopped it, if any, and the context.
\<close>

fun run_rows :: "('c \<Rightarrow> int \<Rightarrow> argv \<Rightarrow> int \<times> 'c) \<Rightarrow> 'c \<Rightarrow> argv list \<Rightarrow> nat \<Rightarrow> nat option \<times> 'c" where
  "run_rows cb ctx [] k = (None, ctx)"
| "run_rows cb ctx (r # rs) k =
     (case cb ctx (int (length r)) r of
        (ret, ctx') \<Rightarrow> if ret \<noteq> 0 then (Some k, ctx') else run_rows cb ctx' rs (Suc k))"

text \<open>\<open>sqlite3_exec(db, sql, callback, ctx, &errmsg)\<close>; a null callback is \<open>None\<close>.\<close>

definition sqlite3_exec ::
  "'w engine \<Rightarrow> nat option \<Rightarrow> string \<Rightarrow> ('c \<Rightarrow> int \<Rightarrow> argv \<Rightarrow> int \<times> 'c) option \<Rightarrow> 'c \<Rightarrow>
     string option \<Rightarrow> 'w \<Rightarrow> int \<times> 'c \<times> string option \<times> 'w" where
  "sqlite3_exec E p sql callback ctx msg w =
     (let reply = engine_exec E p sql msg w in
      case callback of
        None \<Rightarrow> (reply_rc reply, ctx, reply_errmsg reply, reply_world reply)
      | Some cb \<Rightarrow>
          (case run_rows cb ctx (reply_rows reply) 0 of
             (None, ctx') \<Rightarrow> (reply_rc reply, ctx', reply_errmsg reply, reply_world reply)
           | (Some k, ctx') \<Rightarrow>
               (case reply_abort reply k of (rc, m, w') \<Rightarrow> (rc, ctx', m, w'))))"

subsection \<open>SQLITE3_QUERY\<close>

text \<open>
  Modelled from the spec: the class \<open>SQLITE3_QUERY\<close> of SQLITE3_QUERY.hpp is not among
  the sources. A query owns a template, an ordered sequence of literal fragments and
  placeholders, and a map from placeholder keys to textual values. \<open>bind\<close> walks the
  fragments in order, appends a literal verbatim and a placeholder's bound value
  unescaped, and fails at the first placeholder whose key has no binding.
  \<open>execute\<close> catches \<open>std::out_of_range\<close> around the call, which is how the failure
  reaches it.
\<close>

datatype fragment = Literal string | Placeholder string

record SQLITE3_QUERY =
  query_template :: "fragment list"
  query_bindings :: "string \<Rightarrow> string option"

datatype bind_error = MissingBinding string

fun bind_fragments :: "(string \<Rightarrow> string option) \<Rightarrow> fragment list \<Rightarrow> bind_error + string" where
  "bind_fragments b [] = Inr []"
| "bind_fragments b (Literal t # fs) =
     (case bind_fragments b fs of Inl e \<Rightarrow> Inl e | Inr rest \<Rightarrow> Inr (t @ rest))"
| "bind_fragments b (Placeholder k # fs) =
     (case b k of
        None \<Rightarrow> Inl (MissingBinding k)
      | Some v \<Rightarrow> (case bind_fragments b fs of Inl e \<Rightarrow> Inl e | Inr rest \<Rightarrow> Inr (v @ rest)))"

definition bind :: "SQLITE3_QUERY \<Rightarrow> bind_error + string" where
  "bind query = bind_fragments (query_bindings query) (query_template query)"

subsection \<open>The class SQLITE3\<close>

text \<open>\<open>char error_no\<close>, \<open>sqlite3 *db\<close>, \<open>char *err_msg\<close> and the result vector.\<close>

record SQLITE3 =
  error_no :: "8 word"
  db :: "nat option"
  err_msg :: "string option"
  result :: "SQLITE_ROW_VECTOR list"

text \<open>
  \<open>exec_callback\<close>: the context is the result vector. The loop runs \<open>i\<close> from 0 to
  \<open>argc - 1\<close>, pushes \<open>argv[i]\<close> or the text NULL for a null pointer, then pushes the row.
  The column names are not read.
\<close>

definition exec_callback :: "SQLITE_ROW_VECTOR list \<Rightarrow> int \<Rightarrow> argv \<Rightarrow> int \<times> SQLITE_ROW_VECTOR list" where
  "exec_callback ptr argc av =
     (let row = map (\<lambda>i. case av ! i of None \<Rightarrow> ''NULL'' | Some v \<Rightarrow> v) [0 ..< nat argc]
      in (0, ptr @ [row]))"

definition start_transaction :: "'w engine \<Rightarrow> SQLITE3 \<Rightarrow> 'w \<Rightarrow> int \<times> SQLITE3 \<times> 'w" where
  "start_transaction E s w =
     (case sqlite3_exec E (db s) ''BEGIN;'' None () (err_msg s) w of
        (rc, _, msg, w') \<Rightarrow>
          let s1 = s\<lparr>err_msg := msg\<rparr> in
          if rc \<noteq> SQLITE_OK then (1, s1\<lparr>error_no := 127\<rparr>, w') else (0, s1, w'))"

text \<open>
  The constructor. \<open>error_no\<close> has no initialiser: its first value \<open>e0\<close> is whatever the
  storage holds. A failed open throws, so no object exists (\<open>Inl\<close>).
\<close>

datatype ctor_error = RuntimeError string

definition SQLITE3_ctor ::
  "'w engine \<Rightarrow> string \<Rightarrow> 8 word \<Rightarrow> 'w \<Rightarrow> (ctor_error + SQLITE3) \<times> 'w" where
  "SQLITE3_ctor E db_name e0 w =
     (let s = \<lparr>error_no = e0, db = None, err_msg = None, result = []\<rparr> in
      if db_name \<noteq> [] then
        (case engine_open E (c_str db_name) w of
           (rc, p, w1) \<Rightarrow>
             let s1 = s\<lparr>db := p\<rparr> in
             if rc \<noteq> SQLITE_OK then (Inl (RuntimeError ''Unable to open database''), engine_close E (db s1) w1)
             else (case start_transaction E s1 w1 of (_, s2, w2) \<Rightarrow> (Inr s2, w2)))
      else (Inr s, w))"

definition "open" :: "'w engine \<Rightarrow> string \<Rightarrow> SQLITE3 \<Rightarrow> 'w \<Rightarrow> int \<times> SQLITE3 \<times> 'w" where
  "open E db_name s w =
     (if db s \<noteq> None then (1, s\<lparr>error_no := 2\<rparr>, w)
      else
        (case engine_open E (c_str db_name) w of
           (rc, p, w1) \<Rightarrow>
             let s1 = s\<lparr>db := p\<rparr> in
             if rc \<noteq> SQLITE_OK then (1, s1\<lparr>error_no := 1\<rparr>, engine_close E (db s1) w1)
             else (case start_transaction E s1 w1 of (_, s2, w2) \<Rightarrow> (0, s2, w2))))"

definition commit :: "'w engine \<Rightarrow> SQLITE3 \<Rightarrow> 'w \<Rightarrow> int \<times> SQLITE3 \<times> 'w" where
  "commit E s w =
     (case sqlite3_exec E (db s) ''COMMIT;'' None () (err_msg s) w of
        (rc, _, msg, w1) \<Rightarrow>
          let s1 = s\<lparr>err_msg := msg\<rparr> in
          if rc \<noteq> SQLITE_OK then (1, s1\<lparr>error_no := 127\<rparr>, w1)
          else (case start_transaction E s1 w1 of (_, s2, w2) \<Rightarrow> (0, s2, w2)))"

text \<open>The tail shared by the three overloads: clear the vector, run the text, check.\<close>

definition execute_cstr :: "'w engine \<Rightarrow> string \<Rightarrow> SQLITE3 \<Rightarrow> 'w \<Rightarrow> int \<times> SQLITE3 \<times> 'w" where
  "execute_cstr E query s w =
     (if db s = None then (1, s\<lparr>error_no := 4\<rparr>, w)
      else
        let s1 = s\<lparr>result := []\<rparr> in
        (case sqlite3_exec E (db s1) query (Some exec_callback) (result s1) (err_msg s1) w of
           (rc, tbl, msg, w') \<Rightarrow>
             let s2 = s1\<lparr>result := tbl, err_msg := msg\<rparr> in
             if rc \<noteq> SQLITE_OK then (1, s2\<lparr>error_no := 127\<rparr>, w') else (0, s2, w')))"

definition execute_string :: "'w engine \<Rightarrow> string \<Rightarrow> SQLITE3 \<Rightarrow> 'w \<Rightarrow> int \<times> SQLITE3 \<times> 'w" where
  "execute_string E query s w =
     (if db s = None then (1, s\<lparr>error_no := 4\<rparr>, w)
      else
        let s1 = s\<lparr>result := []\<rparr> in
        (case sqlite3_exec E (db s1) (c_str query) (Some exec_callback) (result s1) (err_msg s1) w of
           (rc, tbl, msg, w') \<Rightarrow>
             let s2 = s1\<lparr>result := tbl, err_msg := msg\<rparr> in
             if rc \<noteq> SQLITE_OK then (1, s2\<lparr>error_no := 127\<rparr>, w') else (0, s2, w')))"

definition execute_query :: "'w engine \<Rightarrow> SQLITE3_QUERY \<Rightarrow> SQLITE3 \<Rightarrow> 'w \<Rightarrow> int \<times> SQLITE3 \<times> 'w" where
  "execute_query E query s w =
     (if db s = None then (1, s\<lparr>error_no := 4\<rparr>, w)
      else
        (case bind query of
           Inl _ \<Rightarrow> (1, s\<lparr>error_no := 3\<rparr>, w)
         | Inr prepared_query \<Rightarrow>
             let s1 = s\<lparr>result := []\<rparr> in
             (case sqlite3_exec E (db s1) (c_str prepared_query) (Some exec_callback) (result s1) (err_msg s1) w of
                (rc, tbl, msg, w') \<Rightarrow>
                  let s2 = s1\<lparr>result := tbl, err_msg := msg\<rparr> in
                  if rc \<noteq> SQLITE_OK then (1, s2\<lparr>error_no := 127\<rparr>, w') else (0, s2, w'))))"

text \<open>
  \<open>get_result_row_count\<close> returns \<open>result->size()\<close>, a \<open>size_t\<close>, as an \<open>int\<close>: the size
  is narrowed to 32 bits and read as a signed number, so the return value is the
  number of rows only below \<open>2^31\<close> rows.
\<close>

definition get_result_row_count :: "SQLITE3 \<Rightarrow> int" where
  "get_result_row_count s = sint (word_of_nat (length (result s)) :: 32 word)"

definition get_result :: "SQLITE3 \<Rightarrow> SQLITE_ROW_VECTOR list" where
  "get_result s = result s"

text \<open>
  \<open>perror\<close>: the text written to the error stream. Code 127 streams \<open>err_msg\<close>, which
  has no defined output when the pointer is null (\<open>None\<close>); a code outside the switch
  prints nothing.
\<close>

definition perror :: "SQLITE3 \<Rightarrow> string option" where
  "perror s =
     (if error_no s = 0 then Some []
      else if error_no s = 1 then Some (''SQLITE DATABASE OPEN FAILURE'' @ [CHR 0x0A])
      else if error_no s = 2 then
        Some (''SQLITE DATABASE ALREADY OPENED, CREATE NEW OBJECT FOR NEW DATABASE'' @ [CHR 0x0A])
      else if error_no s = 3 then Some (''Query Binding Failed'' @ [CHR 0x0A])
      else if error_no s = 4 then Some (''No database connected'' @ [CHR 0x0A])
      else if error_no s = 127 then
        (case err_msg s of None \<Rightarrow> None | Some m \<Rightarrow> Some (m @ [CHR 0x0A]))
      else Some [])"

subsection \<open>Words of the specification\<close>

text \<open>The text of one cell: the value, or the literal NULL for a null value.\<close>

definition cell_text :: "string option \<Rightarrow> string" where
  "cell_text v = (case v of None \<Rightarrow> ''NULL'' | Some t \<Rightarrow> t)"

subsection \<open>Sequences of calls\<close>

text \<open>A caller's program: the public member functions, called one after the other with
  their return values ignored.\<close>

datatype op =
    Op_open string
  | Op_commit
  | Op_execute_query SQLITE3_QUERY
  | Op_execute_string string
  | Op_execute_cstr string

fun step :: "'w engine \<Rightarrow> op \<Rightarrow> SQLITE3 \<Rightarrow> 'w \<Rightarrow> int \<times> SQLITE3 \<times> 'w" where
  "step E (Op_open db_name) s w = open E db_name s w"
| "step E Op_commit s w = commit E s w"
| "step E (Op_execute_query q) s w = execute_query E q s w"
| "step E (Op_execute_string q) s w = execute_string E q s w"
| "step E (Op_execute_cstr q) s w = execute_cstr E q s w"




text \<open>The C string an \<open>execute\<close> call hands to \<open>sqlite3_exec\<close> when it reaches that
  step with a connection: none for a query whose binding fails, none for the other calls.\<close>

fun submitted :: "op \<Rightarrow> string option" where
  "submitted (Op_execute_cstr q) = Some q"
| "submitted (Op_execute_string q) = Some (c_str q)"
| "submitted (Op_execute_query b) = (case bind b of Inl _ \<Rightarrow> None | Inr p \<Rightarrow> Some (c_str p))"
| "submitted x = None"

subsection \<open>A small library for concrete runs\<close>

text \<open>
  A stand-in for SQLite, enough to run the class on concrete inputs. It keeps the
  handles it has allocated and not yet closed, the handles with a transaction open and
  a switch that makes the next BEGIN fail (as when memory runs out). It follows the
  library's documented behaviour where the runs below depend on it: \<open>sqlite3_open\<close>
  stores a handle also when it fails, a request on a null or closed handle is refused
  (\<open>SQLITE_MISUSE\<close>, 21) without touching the message pointer, BEGIN inside a
  transaction and COMMIT outside one are errors, and a script whose second statement
  does not parse reports the first statement's rows before it fails.
\<close>

record demo_world =
  next_handle :: nat
  live :: "nat list"
  in_tx :: "nat list"
  begin_fault :: bool

definition demo_reply :: "argv list \<Rightarrow> int \<Rightarrow> string option \<Rightarrow> demo_world \<Rightarrow> demo_world exec_reply" where
  "demo_reply rows rc msg w =
     \<lparr>reply_rows = rows, reply_rc = rc, reply_errmsg = msg, reply_world = w,
      reply_abort = (\<lambda>k. (4, Some ''query aborted'', w))\<rparr>"

definition demo_open :: "string \<Rightarrow> demo_world \<Rightarrow> int \<times> nat option \<times> demo_world" where
  "demo_open name w =
     (let h = next_handle w;
          w1 = w\<lparr>next_handle := Suc h, live := h # live w\<rparr>
      in if name = ''/no/such/dir/x.db'' then (14, Some h, w1) else (0, Some h, w1))"

definition demo_close :: "nat option \<Rightarrow> demo_world \<Rightarrow> demo_world" where
  "demo_close p w =
     (case p of
        None \<Rightarrow> w
      | Some h \<Rightarrow> w\<lparr>live := removeAll h (live w), in_tx := removeAll h (in_tx w)\<rparr>)"

definition demo_exec :: "nat option \<Rightarrow> string \<Rightarrow> string option \<Rightarrow> demo_world \<Rightarrow> demo_world exec_reply" where
  "demo_exec p sql msg w =
     (case p of
        None \<Rightarrow> demo_reply [] 21 msg w
      | Some h \<Rightarrow>
          if h \<notin> set (live w) then demo_reply [] 21 msg w
          else if sql = ''BEGIN;'' then
            (if begin_fault w then demo_reply [] 7 (Some ''out of memory'') w
             else if h \<in> set (in_tx w) then
               demo_reply [] 1 (Some ''cannot start a transaction within a transaction'') w
             else demo_reply [] 0 None (w\<lparr>in_tx := h # in_tx w\<rparr>))
          else if sql = ''COMMIT;'' then
            (if h \<in> set (in_tx w) then demo_reply [] 0 None (w\<lparr>in_tx := removeAll h (in_tx w)\<rparr>)
             else demo_reply [] 1 (Some ''cannot commit - no transaction is active'') w)
          else if sql = ''SELECT 1, NULL;'' then demo_reply [[Some ''1'', None]] 0 None w
          else if sql = ''SELECT 2;'' then demo_reply [[Some ''2'']] 0 None w
          else if sql = ''SELECT 1; SELEC'' then
            demo_reply [[Some ''1'']] 1 (Some ''near SELEC: syntax error'') w
          else demo_reply [] 1 (Some ''syntax error'') w)"

definition demo_engine :: "demo_world engine" where
  "demo_engine = \<lparr>engine_open = demo_open, engine_close = demo_close, engine_exec = demo_exec\<rparr>"

text \<open>The library before anything is opened, an object built with the empty name, and
  an object with a connection and its transaction open.\<close>

definition demo_start :: demo_world where
  "demo_start = \<lparr>next_handle = 1, live = [], in_tx = [], begin_fault = False\<rparr>"

definition fresh :: SQLITE3 where
  "fresh = \<lparr>error_no = 0, db = None, err_msg = None, result = []\<rparr>"

definition demo_open_world :: demo_world where
  "demo_open_world = \<lparr>next_handle = 2, live = [1], in_tx = [1], begin_fault = False\<rparr>"

definition opened :: SQLITE3 where
  "opened = \<lparr>error_no = 0, db = Some 1, err_msg = None, result = []\<rparr>"

text \<open>A template with one placeholder, once with its binding and once without.\<close>

definition select_n :: "fragment list" where
  "select_n = [Literal ''SELECT '', Placeholder ''n'', Literal '';'']"

definition query_bound :: SQLITE3_QUERY where
  "query_bound = \<lparr>query_template = select_n, query_bindings = [''n'' \<mapsto> ''2'']\<rparr>"

definition query_unbound :: SQLITE3_QUERY where
  "query_unbound = \<lparr>query_template = select_n, query_bindings = Map.empty\<rparr>"

text \<open>An open object holding the row of an earlier statement.\<close>

definition opened_with_row :: SQLITE3 where
  "opened_with_row = \<lparr>error_no = 0, db = Some 1, err_msg = None, result = [[''1'', ''NULL'']]\<rparr>"

section \<open>Properties\<close>

subsection \<open>The callback and the three overloads of execute\<close>

lemma exec_callback_row:
  "exec_callback tbl (int (length r)) r = (0, tbl @ [map cell_text r])"
proof -
  have "map (\<lambda>i. cell_text (r ! i)) [0 ..< length r] = map cell_text r"
    by (rule nth_equalityI) simp_all
  then show ?thesis
    by (simp add: exec_callback_def cell_text_def)
qed

lemma exec_callback_returns_zero: "fst (exec_callback tbl argc av) = 0"
  by (simp add: exec_callback_def)

lemma run_rows_exec_callback:
  "run_rows exec_callback tbl rows k = (None, tbl @ map (map cell_text) rows)"
proof (induction rows arbitrary: tbl k)
  case Nil
  show ?case by simp
next
  case (Cons r rows)
  then show ?case by (simp add: exec_callback_row)
qed

lemma sqlite3_exec_collects:
  "sqlite3_exec E p sql (Some exec_callback) tbl msg w =
     (reply_rc (engine_exec E p sql msg w),
      tbl @ map (map cell_text) (reply_rows (engine_exec E p sql msg w)),
      reply_errmsg (engine_exec E p sql msg w),
      reply_world (engine_exec E p sql msg w))"
  by (simp add: sqlite3_exec_def Let_def run_rows_exec_callback)

lemma sqlite3_exec_no_callback:
  "sqlite3_exec E p sql None ctx msg w =
     (reply_rc (engine_exec E p sql msg w), ctx,
      reply_errmsg (engine_exec E p sql msg w),
      reply_world (engine_exec E p sql msg w))"
  by (simp add: sqlite3_exec_def Let_def)

lemma execute_cstr_unopened:
  "db s = None \<Longrightarrow> execute_cstr E q s w = (1, s\<lparr>error_no := 4\<rparr>, w)"
  by (simp add: execute_cstr_def)

lemma execute_cstr_connected:
  "db s \<noteq> None \<Longrightarrow>
   execute_cstr E q s w =
     (if reply_rc (engine_exec E (db s) q (err_msg s) w) \<noteq> SQLITE_OK then 1 else 0,
      s\<lparr>result := map (map cell_text) (reply_rows (engine_exec E (db s) q (err_msg s) w)),
        err_msg := reply_errmsg (engine_exec E (db s) q (err_msg s) w),
        error_no := (if reply_rc (engine_exec E (db s) q (err_msg s) w) \<noteq> SQLITE_OK then 127
                     else error_no s)\<rparr>,
      reply_world (engine_exec E (db s) q (err_msg s) w))"
  by (auto simp add: execute_cstr_def sqlite3_exec_collects Let_def)

lemma execute_string_cstr: "execute_string E q s w = execute_cstr E (c_str q) s w"
  by (simp add: execute_string_def execute_cstr_def Let_def)

lemma execute_query_bound:
  "bind b = Inr p \<Longrightarrow> execute_query E b s w = execute_string E p s w"
  by (simp add: execute_query_def execute_string_def Let_def)

lemma execute_query_unbound:
  "db s \<noteq> None \<Longrightarrow> bind b = Inl e \<Longrightarrow> execute_query E b s w = (1, s\<lparr>error_no := 3\<rparr>, w)"
  by (auto simp add: execute_query_def)


lemma c_str_no_nul: "CHR 0x00 \<notin> set q \<Longrightarrow> c_str q = q"
  by (auto simp add: c_str_def)

lemma start_transaction_eq:
  "start_transaction E s w =
     (if reply_rc (engine_exec E (db s) ''BEGIN;'' (err_msg s) w) \<noteq> SQLITE_OK then 1 else 0,
      s\<lparr>err_msg := reply_errmsg (engine_exec E (db s) ''BEGIN;'' (err_msg s) w),
        error_no := (if reply_rc (engine_exec E (db s) ''BEGIN;'' (err_msg s) w) \<noteq> SQLITE_OK
                     then 127 else error_no s)\<rparr>,
      reply_world (engine_exec E (db s) ''BEGIN;'' (err_msg s) w))"
  by (simp add: start_transaction_def sqlite3_exec_no_callback Let_def)

subsection \<open>open, commit and the error code\<close>

lemma start_transaction_error_no:
  "error_no (fst (snd (start_transaction E s w))) = error_no s \<or>
   error_no (fst (snd (start_transaction E s w))) = 127"
  by (simp add: start_transaction_eq)

lemma start_transaction_ok_error_no:
  "fst (start_transaction E s w) = 0 \<Longrightarrow>
   error_no (fst (snd (start_transaction E s w))) = error_no s"
  by (simp add: start_transaction_eq split: if_splits)

lemma start_transaction_db: "db (fst (snd (start_transaction E s w))) = db s"
  by (simp add: start_transaction_eq)

lemma start_transaction_result: "result (fst (snd (start_transaction E s w))) = result s"
  by (simp add: start_transaction_eq)

lemma open_eq:
  "open E n s w =
     (if db s \<noteq> None then (1, s\<lparr>error_no := 2\<rparr>, w)
      else if fst (engine_open E (c_str n) w) \<noteq> SQLITE_OK then
        (1, s\<lparr>db := fst (snd (engine_open E (c_str n) w)), error_no := 1\<rparr>,
         engine_close E (fst (snd (engine_open E (c_str n) w))) (snd (snd (engine_open E (c_str n) w))))
      else
        (0, snd (start_transaction E (s\<lparr>db := fst (snd (engine_open E (c_str n) w))\<rparr>)
                   (snd (snd (engine_open E (c_str n) w))))))"
  by (simp add: open_def Let_def split: prod.splits)

lemma commit_eq:
  "commit E s w =
     (if reply_rc (engine_exec E (db s) ''COMMIT;'' (err_msg s) w) \<noteq> SQLITE_OK then
        (1, s\<lparr>err_msg := reply_errmsg (engine_exec E (db s) ''COMMIT;'' (err_msg s) w),
              error_no := 127\<rparr>,
         reply_world (engine_exec E (db s) ''COMMIT;'' (err_msg s) w))
      else
        (0, snd (start_transaction E
                   (s\<lparr>err_msg := reply_errmsg (engine_exec E (db s) ''COMMIT;'' (err_msg s) w)\<rparr>)
                   (reply_world (engine_exec E (db s) ''COMMIT;'' (err_msg s) w)))))"
  by (simp add: commit_def sqlite3_exec_no_callback Let_def split: prod.splits)













lemma narrow_small:
  assumes "n < 2 ^ 31"
  shows "sint (word_of_nat n :: 32 word) = int n"
proof -
  have "sint (word_of_nat n :: 32 word) = signed_take_bit 31 (int n)"
    by (simp add: signed_of_nat)
  also have "\<dots> = int n"
    using assms by (simp add: signed_take_bit_int_eq_self)
  finally show ?thesis .
qed

lemma get_result_row_count_small:
  "length (result s) < 2 ^ 31 \<Longrightarrow> get_result_row_count s = int (length (result s))"
  by (simp add: get_result_row_count_def narrow_small)

lemma commit_status:
  "fst (commit E s w) =
     (if reply_rc (engine_exec E (db s) ''COMMIT;'' (err_msg s) w) \<noteq> SQLITE_OK then 1 else 0)"
  by (simp add: commit_eq)

lemma open_already_open:
  "db s \<noteq> None \<Longrightarrow> open E n s w = (1, s\<lparr>error_no := 2\<rparr>, w)"
  by (simp add: open_def)

lemma open_status:
  "db s = None \<Longrightarrow>
   fst (open E n s w) = (if fst (engine_open E (c_str n) w) \<noteq> SQLITE_OK then 1 else 0)"
  by (simp add: open_eq)

lemma open_failure_keeps_pointer:
  "db s = None \<Longrightarrow> fst (engine_open E (c_str n) w) \<noteq> SQLITE_OK \<Longrightarrow>
   db (fst (snd (open E n s w))) = fst (snd (engine_open E (c_str n) w))"
  by (simp add: open_eq)

lemma step_submitted:
  "submitted x = Some t \<Longrightarrow> step E x s w = execute_cstr E t s w"
proof (cases x)
  case (Op_execute_query b)
  assume "submitted x = Some t"
  with Op_execute_query obtain p where "bind b = Inr p" and "t = c_str p"
    by (auto split: sum.splits)
  with Op_execute_query show ?thesis
    by (simp add: execute_query_bound execute_string_cstr)
qed (auto simp add: execute_string_cstr)

subsection \<open>Concrete runs\<close>

lemmas demo_defs =
  demo_engine_def demo_exec_def demo_open_def demo_close_def demo_reply_def
  demo_start_def demo_open_world_def fresh_def opened_def opened_with_row_def

lemma ctor_fresh: "SQLITE3_ctor demo_engine [] 0 demo_start = (Inr fresh, demo_start)"
  by (simp add: SQLITE3_ctor_def fresh_def)

lemma open_fresh: "open demo_engine ''app.db'' fresh demo_start = (0, opened, demo_open_world)"
  by (simp add: open_eq start_transaction_eq demo_defs c_str_def SQLITE_OK_def)

lemma select_after_open:
  "execute_cstr demo_engine ''SELECT 1, NULL;'' opened demo_open_world = (0, opened_with_row, demo_open_world)"
  by (simp add: execute_cstr_connected demo_defs SQLITE_OK_def cell_text_def)

lemma bind_query_bound: "bind query_bound = Inr ''SELECT 2;''"
  by (simp add: bind_def query_bound_def select_n_def)

lemma bind_query_unbound: "bind query_unbound = Inl (MissingBinding ''n'')"
  by (simp add: bind_def query_unbound_def select_n_def)

section \<open>The claims\<close>

text \<open>
  C1. Claim: on an object whose \<open>db\<close> is null, \<open>commit\<close> fails with the NotConnected code
  (4), as \<open>execute\<close> does. \<open>commit\<close> has no test of \<open>db\<close>: it sends COMMIT on the null
  pointer, and the only code it ever writes is 127 (\<open>commit_error_no\<close>, for every
  library). On the object the constructor builds from the empty name, with a library
  that refuses a null handle, \<open>commit\<close> returns 1 with code 127 and \<open>execute\<close> returns 1
  with code 4.
\<close>

theorem C1_commit_unopened_sets_127:
  "commit demo_engine fresh demo_start = (1, fresh\<lparr>error_no := 127\<rparr>, demo_start) \<and>
   execute_cstr demo_engine ''COMMIT;'' fresh demo_start = (1, fresh\<lparr>error_no := 4\<rparr>, demo_start)"
  by (simp add: commit_eq execute_cstr_unopened demo_defs SQLITE_OK_def)

text \<open>
  C2. Claim: when \<open>commit\<close> returns 0 on an object with a connection and a transaction,
  one transaction is open afterwards, because the new BEGIN succeeded. \<open>commit\<close> drops
  the status of \<open>start_transaction\<close>: its own status is that of the COMMIT request alone
  (\<open>commit_status\<close>, for every library). On the opened object, with a library whose
  BEGIN fails after the COMMIT went through, \<open>commit\<close> returns 0, the code is 127 and no
  transaction is open.
\<close>

theorem C2_commit_returns_0_without_transaction:
  "commit demo_engine opened (demo_open_world\<lparr>begin_fault := True\<rparr>) =
     (0, opened\<lparr>err_msg := Some ''out of memory'', error_no := 127\<rparr>,
      demo_open_world\<lparr>in_tx := [], begin_fault := True\<rparr>)"
  by (simp add: commit_eq start_transaction_eq demo_defs SQLITE_OK_def)

text \<open>
  C3. Claim: a failed \<open>open\<close> closes the connection, reports failure and leaves the
  object unopened, so that \<open>open\<close> can be retried on it. \<open>open\<close> closes the handle the
  library stored but keeps it in \<open>db\<close> (\<open>open_failure_keeps_pointer\<close>), and it drops the
  status of \<open>start_transaction\<close>. First and second run: the file cannot be opened, \<open>open\<close>
  returns 1 with code 1 and the closed handle still in \<open>db\<close>; the retry with a good
  name returns 1 with code 2 and never reaches the library. Third run: the file opens
  and BEGIN fails; \<open>open\<close> returns 0, the connection stays open with no transaction.
\<close>

theorem C3_failed_open_blocks_retry:
  "open demo_engine ''/no/such/dir/x.db'' fresh demo_start =
     (1, fresh\<lparr>db := Some 1, error_no := 1\<rparr>, demo_start\<lparr>next_handle := 2\<rparr>) \<and>
   open demo_engine ''app.db'' (fresh\<lparr>db := Some 1, error_no := 1\<rparr>) (demo_start\<lparr>next_handle := 2\<rparr>) =
     (1, fresh\<lparr>db := Some 1, error_no := 2\<rparr>, demo_start\<lparr>next_handle := 2\<rparr>) \<and>
   open demo_engine ''app.db'' fresh (demo_start\<lparr>begin_fault := True\<rparr>) =
     (0, fresh\<lparr>db := Some 1, err_msg := Some ''out of memory'', error_no := 127\<rparr>,
      demo_start\<lparr>next_handle := 2, live := [1], begin_fault := True\<rparr>)"
  by (simp add: open_eq start_transaction_eq demo_defs c_str_def SQLITE_OK_def)

text \<open>
  C4. On an object with a connection, \<open>execute\<close> of a query whose \<open>bind\<close> fails for a
  missing binding returns 1 and changes the error code to 3 and nothing else: the
  result vector and the library state are the ones before the call, whatever the
  library is.
\<close>

theorem C4_binding_failure_touches_nothing:
  assumes "db s \<noteq> None" and "bind q = Inl (MissingBinding k)"
  shows "execute_query E q s w = (1, s\<lparr>error_no := 3\<rparr>, w) \<and>
         result (fst (snd (execute_query E q s w))) = result s"
  using assms by (simp add: execute_query_unbound)

text \<open>C4 on the open object that holds a row, with the template whose placeholder is unbound.\<close>

theorem C4_binding_failure_touches_nothing_witness:
  "db opened_with_row \<noteq> None \<and> bind query_unbound = Inl (MissingBinding ''n'') \<and>
   execute_query demo_engine query_unbound opened_with_row demo_open_world =
     (1, opened_with_row\<lparr>error_no := 3\<rparr>, demo_open_world) \<and>
   result (fst (snd (execute_query demo_engine query_unbound opened_with_row demo_open_world))) =
     [[''1'', ''NULL'']]"
proof -
  have a: "db opened_with_row \<noteq> None" by (simp add: opened_with_row_def)
  have b: "result opened_with_row = [[''1'', ''NULL'']]" by (simp add: opened_with_row_def)
  show ?thesis
    using C4_binding_failure_touches_nothing [OF a bind_query_unbound, of demo_engine demo_open_world]
      a b bind_query_unbound
    by simp
qed

text \<open>
  C5. On an object with a connection, when the library answers the text of an
  \<open>execute\<close> call (any of the three overloads) with a status other than \<open>SQLITE_OK\<close>,
  the call returns 1 with code 127, \<open>err_msg\<close> is the library's message (which is what
  \<open>perror\<close> then prints), and the result vector holds the rows the library reported
  before it failed, as text, and no others: none when it reported none.
  \<open>get_result_row_count\<close> returns their number narrowed to an \<open>int\<close>, which is their
  number below \<open>2^31\<close> rows.
\<close>

theorem C5_failure_keeps_partial_rows:
  assumes "db s \<noteq> None"
      and "submitted x = Some sql"
      and "reply = engine_exec E (db s) sql (err_msg s) w"
      and "reply_rc reply \<noteq> SQLITE_OK"
      and "s' = s\<lparr>result := map (map cell_text) (reply_rows reply),
                   err_msg := reply_errmsg reply, error_no := 127\<rparr>"
  shows "step E x s w = (1, s', reply_world reply) \<and>
         get_result_row_count s' = sint (word_of_nat (length (reply_rows reply)) :: 32 word) \<and>
         (length (reply_rows reply) < 2 ^ 31 \<longrightarrow>
            get_result_row_count s' = int (length (reply_rows reply))) \<and>
         perror s' = map_option (\<lambda>m. m @ [CHR 0x0A]) (reply_errmsg reply)"
proof -
  have c: "step E x s w = (1, s', reply_world reply)"
    using assms by (simp add: step_submitted execute_cstr_connected)
  have p: "perror s' = map_option (\<lambda>m. m @ [CHR 0x0A]) (reply_errmsg reply)"
    using assms(5) by (simp add: perror_def split: option.splits)
  have n: "get_result_row_count s' = sint (word_of_nat (length (reply_rows reply)) :: 32 word)"
    using assms(5) by (simp add: get_result_row_count_def)
  have m: "length (reply_rows reply) < 2 ^ 31 \<longrightarrow>
             get_result_row_count s' = int (length (reply_rows reply))"
    using assms(5) by (simp add: get_result_row_count_small)
  from c p n m show ?thesis by simp
qed

text \<open>C5 on a script whose first statement yields a row and whose second does not parse.\<close>

theorem C5_failure_keeps_partial_rows_witness:
  "db opened_with_row \<noteq> None \<and>
   step demo_engine (Op_execute_string ''SELECT 1; SELEC'') opened_with_row demo_open_world =
     (1, \<lparr>error_no = 127, db = Some 1, err_msg = Some ''near SELEC: syntax error'',
          result = [[''1'']]\<rparr>, demo_open_world) \<and>
   length [[Some ''1'']] < (2::nat) ^ 31 \<and>
   get_result_row_count \<lparr>error_no = 127, db = Some 1, err_msg = Some ''near SELEC: syntax error'',
          result = [[''1'']]\<rparr> = 1 \<and>
   perror \<lparr>error_no = 127, db = Some 1, err_msg = Some ''near SELEC: syntax error'',
          result = [[''1'']]\<rparr> = Some (''near SELEC: syntax error'' @ [CHR 0x0A])"
proof -
  have a: "db opened_with_row \<noteq> None" by (simp add: opened_with_row_def)
  have sb: "submitted (Op_execute_string ''SELECT 1; SELEC'') = Some ''SELECT 1; SELEC''"
    by (simp add: c_str_def)
  have r: "engine_exec demo_engine (db opened_with_row) ''SELECT 1; SELEC'' (err_msg opened_with_row) demo_open_world
             = demo_reply [[Some ''1'']] 1 (Some ''near SELEC: syntax error'') demo_open_world"
    by (simp add: demo_defs)
  have f: "reply_rc (demo_reply [[Some ''1'']] 1 (Some ''near SELEC: syntax error'') demo_open_world) \<noteq> SQLITE_OK"
    by (simp add: demo_reply_def SQLITE_OK_def)
  show ?thesis
    using C5_failure_keeps_partial_rows [OF a sb r [symmetric] f refl] a
    by (simp add: demo_reply_def cell_text_def opened_with_row_def)
qed

text \<open>
  C6. On an object with a connection, after two successive \<open>execute\<close> calls that both
  reach \<open>sqlite3_exec\<close>, the result vector holds the rows the library reported for the
  second text and nothing else; it is the same vector whatever the vector held before
  the second call.
\<close>

theorem C6_execute_replaces_rows:
  assumes "db s \<noteq> None"
      and "submitted x1 = Some t1" and "submitted x2 = Some t2"
      and "step E x1 s w = (rc1, s1, w1)" and "step E x2 s1 w1 = (rc2, s2, w2)"
  shows "result s2 = map (map cell_text) (reply_rows (engine_exec E (db s1) t2 (err_msg s1) w1)) \<and>
         result (fst (snd (step E x2 (s1\<lparr>result := other\<rparr>) w1))) = result s2"
proof -
  have e1: "execute_cstr E t1 s w = (rc1, s1, w1)"
    using assms(2,4) by (simp add: step_submitted)
  have d: "db s1 \<noteq> None"
    using e1 assms(1) by (auto simp add: execute_cstr_connected)
  have e2: "execute_cstr E t2 s1 w1 = (rc2, s2, w2)"
    using assms(3,5) by (simp add: step_submitted)
  have r: "result s2 = map (map cell_text) (reply_rows (engine_exec E (db s1) t2 (err_msg s1) w1))"
    using e2 d by (auto simp add: execute_cstr_connected)
  have o: "result (fst (snd (execute_cstr E t2 (s1\<lparr>result := other\<rparr>) w1))) =
           map (map cell_text) (reply_rows (engine_exec E (db s1) t2 (err_msg s1) w1))"
    using d by (simp add: execute_cstr_connected)
  from r o assms(3) show ?thesis by (simp add: step_submitted)
qed

text \<open>C6 on a raw statement followed by a bound query.\<close>

theorem C6_execute_replaces_rows_witness:
  "db opened \<noteq> None \<and>
   step demo_engine (Op_execute_cstr ''SELECT 1, NULL;'') opened demo_open_world =
     (0, opened_with_row, demo_open_world) \<and>
   step demo_engine (Op_execute_query query_bound) opened_with_row demo_open_world =
     (0, opened\<lparr>result := [[''2'']]\<rparr>, demo_open_world) \<and>
   result (opened\<lparr>result := [[''2'']]\<rparr>) = [[''2'']]"
proof -
  have a: "db opened \<noteq> None" by (simp add: opened_def)
  have s1: "submitted (Op_execute_cstr ''SELECT 1, NULL;'') = Some ''SELECT 1, NULL;''" by simp
  have s2: "submitted (Op_execute_query query_bound) = Some ''SELECT 2;''"
    by (simp add: bind_query_bound c_str_def)
  have st1: "step demo_engine (Op_execute_cstr ''SELECT 1, NULL;'') opened demo_open_world =
     (0, opened_with_row, demo_open_world)"
    by (simp add: select_after_open)
  have st2: "step demo_engine (Op_execute_query query_bound) opened_with_row demo_open_world =
     (0, opened\<lparr>result := [[''2'']]\<rparr>, demo_open_world)"
    by (simp add: execute_query_bound [OF bind_query_bound] execute_string_cstr
          execute_cstr_connected demo_defs c_str_def SQLITE_OK_def cell_text_def)
  show ?thesis
    using C6_execute_replaces_rows [OF a s1 s2 st1 st2, of "[]"] a st1 st2 by simp
qed

text \<open>
  C7. Under the callback protocol, \<open>exec_callback\<close> appends every row the library
  reports, in the order reported, with one cell per column in column order, the text
  NULL for a null value; it returns 0 for every argument, so no row stops the iteration.
\<close>

theorem C7_callback_collects_every_row:
  "run_rows exec_callback tbl rows k = (None, tbl @ map (map cell_text) rows) \<and>
   sqlite3_exec E p sql (Some exec_callback) tbl msg w =
     (reply_rc (engine_exec E p sql msg w),
      tbl @ map (map cell_text) (reply_rows (engine_exec E p sql msg w)),
      reply_errmsg (engine_exec E p sql msg w),
      reply_world (engine_exec E p sql msg w)) \<and>
   exec_callback tbl (int (length r)) r = (0, tbl @ [map cell_text r]) \<and>
   fst (exec_callback tbl argc av) = 0 \<and>
   map length (map (map cell_text) rows) = map length rows \<and>
   cell_text None = ''NULL'' \<and> cell_text (Some t) = t"
  by (simp add: run_rows_exec_callback sqlite3_exec_collects exec_callback_row
        exec_callback_returns_zero cell_text_def)

text \<open>C7 on three rows, one of them empty, appended to a vector that holds a row.\<close>

theorem C7_callback_collects_every_row_witness:
  "run_rows exec_callback [[''0'']] [[Some ''1'', None], [], [None]] 0 =
     (None, [[''0''], [''1'', ''NULL''], [], [''NULL'']])"
proof -
  have h: "run_rows exec_callback [[''0'']] [[Some ''1'', None], [], [None]] 0 =
             (None, [[''0'']] @ map (map cell_text) [[Some ''1'', None], [], [None]])"
    by (rule C7_callback_collects_every_row [THEN conjunct1])
  have e: "[[''0'']] @ map (map cell_text) [[Some ''1'', None], [], [None]] =
             [[''0''], [''1'', ''NULL''], [], [''NULL'']]"
    by (simp add: cell_text_def)
  show ?thesis by (simp only: h e)
qed

text \<open>
  C8. Claim: on an object on which \<open>open\<close> has never succeeded, every \<open>execute\<close> fails
  with the NotConnected code (4) and leaves the result vector alone. With a null \<open>db\<close>
  that is what the three overloads do (\<open>execute_cstr_unopened\<close>,
  \<open>execute_query_unopened\<close>). After an \<open>open\<close> that failed, \<open>db\<close> holds the closed
  handle: \<open>execute\<close> passes its test, clears the vector and sends the text on that
  handle; the code it reports is 127.
\<close>

theorem C8_execute_after_failed_open:
  "open demo_engine ''/no/such/dir/x.db'' fresh demo_start =
     (1, fresh\<lparr>db := Some 1, error_no := 1\<rparr>, demo_start\<lparr>next_handle := 2\<rparr>) \<and>
   execute_string demo_engine ''SELECT 2;'' (fresh\<lparr>db := Some 1, error_no := 1\<rparr>) (demo_start\<lparr>next_handle := 2\<rparr>) =
     (1, fresh\<lparr>db := Some 1, error_no := 127\<rparr>, demo_start\<lparr>next_handle := 2\<rparr>) \<and>
   execute_query demo_engine query_bound (fresh\<lparr>db := Some 1, error_no := 1\<rparr>) (demo_start\<lparr>next_handle := 2\<rparr>) =
     (1, fresh\<lparr>db := Some 1, error_no := 127\<rparr>, demo_start\<lparr>next_handle := 2\<rparr>)"
  by (simp add: open_eq execute_query_bound [OF bind_query_bound] execute_string_cstr
        execute_cstr_connected demo_defs c_str_def SQLITE_OK_def)

text \<open>
  C9. The three overloads agree in status, object and library state, with or without a
  connection: \<open>execute\<close> of a \<open>std::string\<close> is \<open>execute\<close> of its C string, which is the
  string itself when it holds no NUL, and \<open>execute\<close> of a query that binds to \<open>q\<close> is
  \<open>execute\<close> of \<open>q\<close>.
\<close>

theorem C9_execute_overloads_agree:
  "execute_string E q s w = execute_cstr E (c_str q) s w \<and>
   (CHR 0x00 \<notin> set q \<longrightarrow> execute_cstr E q s w = execute_string E q s w) \<and>
   (bind b = Inr q \<longrightarrow> execute_query E b s w = execute_string E q s w)"
  by (simp add: execute_string_cstr execute_query_bound c_str_no_nul)

text \<open>C9 on the open object, with the text the bound template resolves to.\<close>

theorem C9_execute_overloads_agree_witness:
  "CHR 0x00 \<notin> set ''SELECT 2;'' \<and> bind query_bound = Inr ''SELECT 2;'' \<and>
   execute_cstr demo_engine ''SELECT 2;'' opened_with_row demo_open_world =
     (0, opened\<lparr>result := [[''2'']]\<rparr>, demo_open_world) \<and>
   execute_string demo_engine ''SELECT 2;'' opened_with_row demo_open_world =
     (0, opened\<lparr>result := [[''2'']]\<rparr>, demo_open_world) \<and>
   execute_query demo_engine query_bound opened_with_row demo_open_world =
     (0, opened\<lparr>result := [[''2'']]\<rparr>, demo_open_world)"
proof -
  have n: "CHR 0x00 \<notin> set ''SELECT 2;''" by simp
  have c: "execute_cstr demo_engine ''SELECT 2;'' opened_with_row demo_open_world =
     (0, opened\<lparr>result := [[''2'']]\<rparr>, demo_open_world)"
    by (simp add: execute_cstr_connected demo_defs SQLITE_OK_def cell_text_def)
  show ?thesis
    using C9_execute_overloads_agree [of demo_engine "''SELECT 2;''" opened_with_row demo_open_world query_bound]
      n c bind_query_bound
    by simp
qed




end
